theory Spec2Isabelle
  imports Complex_Main "HOL-Library.Log_Nat" "HOL-Library.Sublist"
begin

section \<open>Host values\<close>

text \<open>
  The three server actions of \<^verbatim>\<open>actions/transaction\<close> (createTransaction, scanReceipt,
  createTransactionFromPrompt) and the helper calculateNextRecurringDate are JavaScript;
  line numbers below are those of that file. This section models the values of the host language that the actions compute with:
  Numbers (IEEE-754 binary64), the values JSON.parse can return, truthiness, property
  reads, and the conversions parseFloat, Number and toUpperCase.
\<close>

subsection \<open>Numbers\<close>

text \<open>
  A JavaScript Number is a binary64 float. A finite one is kept as the rational it
  denotes; the two zeros are not told apart (no operation of the actions observes the
  sign of zero). \<open>fl\<close> rounds a rational to the nearest binary64 value, ties to even:
  53 significant bits, exponents from -1022 (below that the spacing stays at 2^-1074)
  to 1023. The result is an infinity when the exponent is beyond 1023, also when
  rounding at exponent 1023 carries the significand up to 2^53.
\<close>

datatype number = NaN | PosInf | NegInf | Finite rat

definition pow2 :: "int \<Rightarrow> rat" where
  "pow2 k = (if 0 \<le> k then 2 ^ nat k else 1 / 2 ^ nat (- k))"

definition pow10 :: "int \<Rightarrow> rat" where
  "pow10 k = (if 0 \<le> k then 10 ^ nat k else 1 / 10 ^ nat (- k))"

definition ilog2 :: "rat \<Rightarrow> int" where
  \<comment> \<open>the exponent e with 2^e \<le> |x| < 2^(e+1), for x \<noteq> 0\<close>
  "ilog2 x = (let (p, q) = quotient_of \<bar>x\<bar>; k = bitlen p - bitlen q
              in if pow2 k \<le> \<bar>x\<bar> then k else k - 1)"

definition round_half_even :: "rat \<Rightarrow> int" where
  "round_half_even r =
     (let f = \<lfloor>r\<rfloor>; d = r - of_int f
      in if d < 1 / 2 then f else if 1 / 2 < d then f + 1
         else if even f then f else f + 1)"

definition fl :: "rat \<Rightarrow> number" where
  "fl x = (if x = 0 then Finite 0 else
     let e = max (ilog2 x) (- 1022);
         u = pow2 (e - 52);
         m = round_half_even (x / u)
     in if 1024 \<le> e \<or> (e = 1023 \<and> \<bar>m\<bar> = 2 ^ 53)
        then (if 0 < x then PosInf else NegInf)
        else Finite (of_int m * u))"

text \<open>Unary minus and binary \<open>+\<close> on Numbers.\<close>

fun jsNeg :: "number \<Rightarrow> number" where
  "jsNeg NaN = NaN"
| "jsNeg PosInf = NegInf"
| "jsNeg NegInf = PosInf"
| "jsNeg (Finite x) = Finite (- x)"

fun jsAdd :: "number \<Rightarrow> number \<Rightarrow> number" where
  "jsAdd NaN _ = NaN"
| "jsAdd _ NaN = NaN"
| "jsAdd PosInf NegInf = NaN"
| "jsAdd NegInf PosInf = NaN"
| "jsAdd PosInf _ = PosInf"
| "jsAdd _ PosInf = PosInf"
| "jsAdd NegInf _ = NegInf"
| "jsAdd _ NegInf = NegInf"
| "jsAdd (Finite x) (Finite y) = fl (x + y)"

subsection \<open>Strings\<close>

text \<open>
  Strings are byte lists; the character classes below are the ASCII ones (the host also
  counts some characters outside ASCII as white space, and maps letters outside ASCII
  to upper case).
\<close>

definition is_digit :: "char \<Rightarrow> bool" where
  "is_digit c = (48 \<le> (of_char c :: nat) \<and> (of_char c :: nat) \<le> 57)"

definition is_space :: "char \<Rightarrow> bool" where
  "is_space c = ((of_char c :: nat) \<in> {9, 10, 11, 12, 13, 32})"

definition trim :: "string \<Rightarrow> string" where
  "trim s = rev (dropWhile is_space (rev (dropWhile is_space s)))"

definition upper_char :: "char \<Rightarrow> char" where
  "upper_char c = (if 97 \<le> (of_char c :: nat) \<and> (of_char c :: nat) \<le> 122
                   then char_of ((of_char c :: nat) - 32) else c)"

definition toUpperCase :: "string \<Rightarrow> string" where
  "toUpperCase s = map upper_char s"

definition digits_val :: "string \<Rightarrow> nat" where
  "digits_val ds = foldl (\<lambda>n c. 10 * n + ((of_char c :: nat) - 48)) 0 ds"

subsection \<open>Numeric text\<close>

text \<open>
  \<open>parse_unsigned\<close> reads the longest prefix of a string that is an unsigned decimal
  literal of the host (\<open>Infinity\<close>, digits with an optional fraction and an optional
  exponent) and returns its value with the rest of the string; \<open>None\<close> when no prefix
  is a literal. An exponent indicator that no digit follows is not part of the literal.
\<close>

definition parse_exponent :: "string \<Rightarrow> int \<times> string" where
  "parse_exponent s =
     (case s of
        [] \<Rightarrow> (0, s)
      | c # t \<Rightarrow>
          if c = CHR ''e'' \<or> c = CHR ''E'' then
            (let (neg, t') = (case t of
                                [] \<Rightarrow> (False, t)
                              | d # t2 \<Rightarrow> if d = CHR ''-'' then (True, t2)
                                           else if d = CHR ''+'' then (False, t2)
                                           else (False, t));
                 ds = takeWhile is_digit t'
             in if ds = [] then (0, s)
                else ((if neg then - int (digits_val ds) else int (digits_val ds)),
                      dropWhile is_digit t'))
          else (0, s))"

definition parse_unsigned :: "string \<Rightarrow> (number \<times> string) option" where
  "parse_unsigned s =
     (if prefix ''Infinity'' s then Some (PosInf, drop 8 s)
      else
        let ip = takeWhile is_digit s;
            r1 = dropWhile is_digit s;
            (fp, r2) = (case r1 of
                          [] \<Rightarrow> ([], r1)
                        | c # t \<Rightarrow> if c = CHR ''.'' \<and> (ip \<noteq> [] \<or> takeWhile is_digit t \<noteq> [])
                                     then (takeWhile is_digit t, dropWhile is_digit t)
                                     else ([], r1))
        in if ip = [] \<and> fp = [] then None
           else
             let (ex, r3) = parse_exponent r2
             in Some (fl ((of_nat (digits_val ip)
                            + of_nat (digits_val fp) / 10 ^ length fp) * pow10 ex), r3))"

definition parse_signed :: "string \<Rightarrow> (number \<times> string) option" where
  "parse_signed s =
     (case s of
        [] \<Rightarrow> None
      | c # t \<Rightarrow>
          if c = CHR ''-'' then map_option (\<lambda>(v, r). (jsNeg v, r)) (parse_unsigned t)
          else if c = CHR ''+'' then parse_unsigned t
          else parse_unsigned s)"

definition parseFloat_string :: "string \<Rightarrow> number" where
  "parseFloat_string s =
     (case parse_signed (dropWhile is_space s) of
        None \<Rightarrow> NaN
      | Some (v, _) \<Rightarrow> v)"

text \<open>
  Number applied to a string: the whole trimmed string must be a literal; the empty
  string is 0; a radix prefix \<open>0x\<close>, \<open>0o\<close> or \<open>0b\<close> starts an unsigned integer literal in
  that radix.
\<close>

definition radix_digit :: "nat \<Rightarrow> char \<Rightarrow> nat option" where
  "radix_digit b c =
     (let n = (of_char c :: nat);
          v = (if 48 \<le> n \<and> n \<le> 57 then n - 48
               else if 97 \<le> n \<and> n \<le> 102 then n - 87
               else if 65 \<le> n \<and> n \<le> 70 then n - 55
               else 16)
      in if v < b then Some v else None)"

fun radix_val :: "nat \<Rightarrow> nat \<Rightarrow> string \<Rightarrow> nat option" where
  "radix_val b acc [] = Some acc"
| "radix_val b acc (c # cs) =
     (case radix_digit b c of
        None \<Rightarrow> None
      | Some v \<Rightarrow> radix_val b (b * acc + v) cs)"

definition radix_of :: "char \<Rightarrow> nat option" where
  "radix_of c =
     (if c = CHR ''x'' \<or> c = CHR ''X'' then Some 16
      else if c = CHR ''o'' \<or> c = CHR ''O'' then Some 8
      else if c = CHR ''b'' \<or> c = CHR ''B'' then Some 2
      else None)"

definition decimal_whole :: "string \<Rightarrow> number" where
  "decimal_whole t = (case parse_signed t of Some (v, []) \<Rightarrow> v | _ \<Rightarrow> NaN)"

definition StringToNumber :: "string \<Rightarrow> number" where
  "StringToNumber s =
     (let t = trim s
      in case t of
           [] \<Rightarrow> Finite 0
         | z # r \<Rightarrow>
             (case r of
                [] \<Rightarrow> decimal_whole t
              | p # ds \<Rightarrow>
                  (case (if z = CHR ''0'' then radix_of p else None) of
                     None \<Rightarrow> decimal_whole t
                   | Some b \<Rightarrow>
                       if ds = [] then NaN
                       else (case radix_val b 0 ds of
                               None \<Rightarrow> NaN
                             | Some n \<Rightarrow> fl (of_nat n)))))"

subsection \<open>Parsed JSON\<close>

text \<open>
  The values JSON.parse returns. An object is the list of its members, one for each key
  (JSON.parse keeps the last of repeated keys); \<open>None\<close> stands for \<open>undefined\<close>.
\<close>

datatype json =
    JNull
  | JBool bool
  | JNum number
  | JStr string
  | JArr "json list"
  | JObj "(string \<times> json) list"

text \<open>
  Exceptions carry a message: \<open>Error\<close> is what the actions throw themselves,
  \<open>TypeError\<close> and \<open>SyntaxError\<close> are thrown by the host, \<open>External\<close> by a
  collaborator.
\<close>

datatype exn =
    Error string
  | TypeError string
  | SyntaxError string
  | External string

fun message :: "exn \<Rightarrow> string" where
  "message (Error m) = m"
| "message (TypeError m) = m"
| "message (SyntaxError m) = m"
| "message (External m) = m"

text \<open>
  \<open>get_prop d k\<close> is the read \<open>d.k\<close> for the field names the actions read (amount, type,
  category, description, date, merchantName): reading from \<open>null\<close> throws a TypeError, an
  object gives its member (\<open>field_of\<close>), and a boolean, number, string or array has no
  such property.
\<close>

fun field_of :: "json \<Rightarrow> string \<Rightarrow> json option" where
  "field_of (JObj kvs) k = map_of kvs k"
| "field_of _ k = None"

definition get_prop :: "json \<Rightarrow> string \<Rightarrow> exn + json option" where
  "get_prop d k =
     (if d = JNull then Inl (TypeError (''Cannot read properties of null (reading '' @ k @ '')''))
      else Inr (field_of d k))"

fun truthy :: "json option \<Rightarrow> bool" where
  "truthy None = False"
| "truthy (Some JNull) = False"
| "truthy (Some (JBool b)) = b"
| "truthy (Some (JNum n)) = (n \<noteq> NaN \<and> n \<noteq> Finite 0)"
| "truthy (Some (JStr s)) = (s \<noteq> [])"
| "truthy (Some (JArr _)) = True"
| "truthy (Some (JObj _)) = True"

text \<open>
  parseFloat converts its argument to a string first. A Number prints as text that reads
  back as the same Number; \<open>undefined\<close>, \<open>null\<close>, booleans and objects print as text with
  no numeric prefix; an array prints as its elements joined by commas, \<open>null\<close> elements
  printing as the empty string, so only its first element can contribute a prefix.
\<close>

fun parseFloat_json :: "json \<Rightarrow> number" where
  "parseFloat_json JNull = NaN"
| "parseFloat_json (JBool b) = NaN"
| "parseFloat_json (JNum n) = n"
| "parseFloat_json (JStr s) = parseFloat_string s"
| "parseFloat_json (JArr []) = NaN"
| "parseFloat_json (JArr (x # xs)) = parseFloat_json x"
| "parseFloat_json (JObj kvs) = NaN"

fun parseFloat :: "json option \<Rightarrow> number" where
  "parseFloat None = NaN"
| "parseFloat (Some v) = parseFloat_json v"

text \<open>
  Number(v): \<open>null\<close> and \<open>false\<close> are 0, \<open>true\<close> is 1, a string is read whole, an object is
  NaN, and an array goes through its printed text: the empty array is 0, an array of one
  element is that element's text read whole, and text with a comma is not a number.
\<close>

fun element_number :: "json \<Rightarrow> number" where
  "element_number JNull = Finite 0"
| "element_number (JBool b) = NaN"
| "element_number (JNum n) = n"
| "element_number (JStr s) = StringToNumber s"
| "element_number (JArr []) = Finite 0"
| "element_number (JArr [x]) = element_number x"
| "element_number (JArr (x # y # zs)) = NaN"
| "element_number (JObj kvs) = NaN"

fun ToNumber_json :: "json \<Rightarrow> number" where
  "ToNumber_json JNull = Finite 0"
| "ToNumber_json (JBool b) = (if b then Finite 1 else Finite 0)"
| "ToNumber_json (JNum n) = n"
| "ToNumber_json (JStr s) = StringToNumber s"
| "ToNumber_json (JArr xs) = element_number (JArr xs)"
| "ToNumber_json (JObj kvs) = NaN"

fun ToNumber :: "json option \<Rightarrow> number" where
  "ToNumber None = NaN"
| "ToNumber (Some v) = ToNumber_json v"

section \<open>Dates\<close>

text \<open>
  A Date is kept by its fields in local time: year, month (0 is January), day of the
  month and milliseconds since midnight; \<open>InvalidDate\<close> is the Date whose time value is
  NaN. The offset of local time is taken as constant, and years are not bounded.
  The getters return NaN (\<open>None\<close>) on an invalid Date.
\<close>

datatype date = InvalidDate | Date int nat nat nat

definition leap_year :: "int \<Rightarrow> bool" where
  "leap_year y = (y mod 4 = 0 \<and> (y mod 100 \<noteq> 0 \<or> y mod 400 = 0))"

definition DaysInMonth :: "int \<Rightarrow> nat \<Rightarrow> nat" where
  "DaysInMonth y m =
     (if m = 1 then (if leap_year y then 29 else 28)
      else if m = 3 \<or> m = 5 \<or> m = 8 \<or> m = 10 then 30
      else 31)"

text \<open>
  The setters rebuild the Date from year, month and day with the host's MakeDay: a month
  beyond December moves into the following years, and a day beyond the end of its month
  moves into the following months (day 0 is the last day of the month before).
\<close>

function roll :: "int \<Rightarrow> nat \<Rightarrow> nat \<Rightarrow> int \<times> nat \<times> nat" where
  "roll y m d =
     (if DaysInMonth y m < d
      then (if m < 11 then roll y (m + 1) (d - DaysInMonth y m)
            else roll (y + 1) 0 (d - DaysInMonth y m))
      else (y, m, d))"
  by pat_completeness auto
termination
  by (relation "measure (\<lambda>(y, m, d). d)") (auto simp: DaysInMonth_def)

declare roll.simps [simp del]

definition MakeDay :: "int \<Rightarrow> nat \<Rightarrow> nat \<Rightarrow> int \<times> nat \<times> nat" where
  "MakeDay y mo d =
     (let y' = y + int (mo div 12); m' = mo mod 12
      in if d = 0
         then (if m' = 0 then (y' - 1, 11, 31) else (y', m' - 1, DaysInMonth y' (m' - 1)))
         else roll y' m' d)"

fun getDate :: "date \<Rightarrow> nat option" where
  "getDate InvalidDate = None"
| "getDate (Date y m d t) = Some d"

fun getMonth :: "date \<Rightarrow> nat option" where
  "getMonth InvalidDate = None"
| "getMonth (Date y m d t) = Some m"

fun getFullYear :: "date \<Rightarrow> int option" where
  "getFullYear InvalidDate = None"
| "getFullYear (Date y m d t) = Some y"

fun setDate :: "date \<Rightarrow> nat option \<Rightarrow> date" where
  "setDate (Date y m d t) (Some n) = (case MakeDay y m n of (y', m', d') \<Rightarrow> Date y' m' d' t)"
| "setDate _ _ = InvalidDate"

fun setMonth :: "date \<Rightarrow> nat option \<Rightarrow> date" where
  "setMonth (Date y m d t) (Some n) = (case MakeDay y n d of (y', m', d') \<Rightarrow> Date y' m' d' t)"
| "setMonth _ _ = InvalidDate"

fun setFullYear :: "date \<Rightarrow> int option \<Rightarrow> date" where
  "setFullYear (Date y m d t) (Some n) = (case MakeDay n m d of (y', m', d') \<Rightarrow> Date y' m' d' t)"
| "setFullYear _ _ = InvalidDate"

text \<open>
  calculateNextRecurringDate (lines 206 to 215 of the actions file) copies the start date
  and applies the setter of the interval; the switch has no default case.
\<close>

definition calculateNextRecurringDate :: "date \<Rightarrow> string \<Rightarrow> date" where
  "calculateNextRecurringDate startDate interval =
     (let date = startDate
      in if interval = ''DAILY'' then setDate date (map_option (\<lambda>n. n + 1) (getDate date))
         else if interval = ''WEEKLY'' then setDate date (map_option (\<lambda>n. n + 7) (getDate date))
         else if interval = ''MONTHLY'' then setMonth date (map_option (\<lambda>n. n + 1) (getMonth date))
         else if interval = ''YEARLY'' then setFullYear date (map_option (\<lambda>n. n + 1) (getFullYear date))
         else date)"


definition days_before_year :: "int \<Rightarrow> int" where
  "days_before_year y = 365 * y + (y + 3) div 4 - (y + 99) div 100 + (y + 399) div 400"

definition days_before_month :: "int \<Rightarrow> nat \<Rightarrow> int" where
  "days_before_month y m = (\<Sum>k<m. int (DaysInMonth y k))"

definition day_number :: "int \<Rightarrow> nat \<Rightarrow> nat \<Rightarrow> int" where
  "day_number y m d = days_before_year y + days_before_month y m + int d"



section \<open>The store and the collaborators\<close>

text \<open>
  The rows of the relational store. A Decimal column (an account's balance, a
  transaction's amount) is kept as the Number that \<open>toNumber()\<close> reads from it, which is
  also the Number last written to it; \<open>id\<close> is the primary key of an account.
\<close>

record user =
  user_id :: string
  clerkUserId :: string

record account =
  account_id :: string
  account_userId :: string
  balance :: number
  isDefault :: bool

record transaction =
  tx_accountId :: string
  tx_userId :: string
  tx_type :: string
  tx_amount :: number
  tx_category :: "json option"
  tx_description :: "json option"
  tx_date :: date
  tx_isRecurring :: bool
  tx_recurringInterval :: "string option"
  tx_nextRecurringDate :: "date option"

record database =
  users :: "user list"
  accounts :: "account list"
  transactions :: "transaction list"

definition toNumber :: "number \<Rightarrow> number" where
  "toNumber d = d"

text \<open>The argument of createTransaction.\<close>

record txdata =
  accountId :: string
  type :: string
  amount :: number
  category :: "json option"
  description :: "json option"
  date :: date
  isRecurring :: bool
  recurringInterval :: "string option"

text \<open>
  The collaborators are parameters of a call: the identity provider (\<open>auth\<close> throws or
  returns the caller's id or \<open>null\<close>), the request context, the admission-control
  provider, the store (any operation may be rejected, and a commit may fail), the cache
  invalidation, the AI oracle (it throws or returns a result whose text may be
  \<open>undefined\<close>), JSON.parse, the Date constructor on a parsed value, and the clock.
  A collaborator that throws gives the message of its exception: as the left summand
  where it also returns a value, as \<open>Some\<close> where it returns nothing. \<open>Allow\<close> stands
  for every decision for which \<open>isDenied()\<close> is false, and \<open>Blocked\<close> for every reason
  of a denial that is not a rate limit.
\<close>

datatype reason = RateLimit nat nat | Blocked

datatype decision = Allow | Deny reason

datatype db_op =
    FindUser string
  | FindAccount string string
  | FindDefaultAccount string
  | CreateTransaction transaction
  | UpdateBalance string number

datatype log_entry = RATE_LIMIT_EXCEEDED nat nat | ScanError exn

record receipt_file =
  arrayBuffer :: "string + string"
  mime_type :: string

record env =
  auth :: "string + string option"
  request :: "string option"
  protect :: "string \<Rightarrow> string + decision"
  db_fault :: "db_op \<Rightarrow> string option"
  commit_fault :: "string option"
  revalidatePath :: "string \<Rightarrow> string option"
  generateContent :: "string \<Rightarrow> string + string option"
  generateContent_image :: "string \<Rightarrow> string \<Rightarrow> string + string option"
  JSON_parse :: "string \<Rightarrow> string + json"
  Date_new :: "json \<Rightarrow> date"
  now :: date

text \<open>
  The state a call runs in: the store, the operations sent to the store so far (also
  those of a unit of work that is rolled back), the console, and the revalidated paths.
\<close>

record state =
  db :: database
  trace :: "db_op list"
  console :: "log_entry list"
  revalidated :: "string list"

datatype 'a result = Success 'a | Failure string

subsection \<open>Store operations\<close>

definition sent :: "db_op \<Rightarrow> state \<Rightarrow> state" where
  "sent op s = s\<lparr>trace := trace s @ [op]\<rparr>"

definition user_findUnique :: "env \<Rightarrow> string \<Rightarrow> state \<Rightarrow> (exn + user option) \<times> state" where
  "user_findUnique e cid s =
     (case db_fault e (FindUser cid) of
        Some m \<Rightarrow> (Inl (External m), sent (FindUser cid) s)
      | None \<Rightarrow> (Inr (find (\<lambda>u. clerkUserId u = cid) (users (db s))), sent (FindUser cid) s))"

definition account_findUnique ::
  "env \<Rightarrow> string \<Rightarrow> string \<Rightarrow> state \<Rightarrow> (exn + account option) \<times> state" where
  "account_findUnique e aid uid s =
     (case db_fault e (FindAccount aid uid) of
        Some m \<Rightarrow> (Inl (External m), sent (FindAccount aid uid) s)
      | None \<Rightarrow>
          (Inr (find (\<lambda>a. account_id a = aid \<and> account_userId a = uid) (accounts (db s))),
           sent (FindAccount aid uid) s))"

definition account_findFirst_default ::
  "env \<Rightarrow> string \<Rightarrow> state \<Rightarrow> (exn + account option) \<times> state" where
  "account_findFirst_default e uid s =
     (case db_fault e (FindDefaultAccount uid) of
        Some m \<Rightarrow> (Inl (External m), sent (FindDefaultAccount uid) s)
      | None \<Rightarrow>
          (Inr (find (\<lambda>a. account_userId a = uid \<and> isDefault a) (accounts (db s))),
           sent (FindDefaultAccount uid) s))"

definition transaction_create ::
  "env \<Rightarrow> transaction \<Rightarrow> state \<Rightarrow> (exn + transaction) \<times> state" where
  "transaction_create e row s =
     (case db_fault e (CreateTransaction row) of
        Some m \<Rightarrow> (Inl (External m), sent (CreateTransaction row) s)
      | None \<Rightarrow>
          (Inr row,
           sent (CreateTransaction row)
             (s\<lparr>db := (db s)\<lparr>transactions := transactions (db s) @ [row]\<rparr>\<rparr>)))"

definition set_balance :: "string \<Rightarrow> number \<Rightarrow> account \<Rightarrow> account" where
  "set_balance aid b a = (if account_id a = aid then a\<lparr>balance := b\<rparr> else a)"

definition account_update ::
  "env \<Rightarrow> string \<Rightarrow> number \<Rightarrow> state \<Rightarrow> (exn + unit) \<times> state" where
  "account_update e aid b s =
     (case db_fault e (UpdateBalance aid b) of
        Some m \<Rightarrow> (Inl (External m), sent (UpdateBalance aid b) s)
      | None \<Rightarrow>
          if find (\<lambda>a. account_id a = aid) (accounts (db s)) = None
          then (Inl (External ''Record to update not found.''), sent (UpdateBalance aid b) s)
          else (Inr (),
                sent (UpdateBalance aid b)
                  (s\<lparr>db := (db s)\<lparr>accounts := map (set_balance aid b) (accounts (db s))\<rparr>\<rparr>)))"

text \<open>
  \<open>db.$transaction\<close> runs its callback as one unit of work: when the callback throws, or
  the commit fails, the store is as it was before the unit started.
\<close>

definition db_transaction ::
  "env \<Rightarrow> (state \<Rightarrow> (exn + 'a) \<times> state) \<Rightarrow> state \<Rightarrow> (exn + 'a) \<times> state" where
  "db_transaction e callback s =
     (case callback s of
        (Inl x, s') \<Rightarrow> (Inl x, s'\<lparr>db := db s\<rparr>)
      | (Inr v, s') \<Rightarrow>
          (case commit_fault e of
             Some m \<Rightarrow> (Inl (External m), s'\<lparr>db := db s\<rparr>)
           | None \<Rightarrow> (Inr v, s')))"

definition do_revalidatePath :: "env \<Rightarrow> string \<Rightarrow> state \<Rightarrow> (exn + unit) \<times> state" where
  "do_revalidatePath e path s =
     (case revalidatePath e path of
        Some m \<Rightarrow> (Inl (External m), s)
      | None \<Rightarrow> (Inr (), s\<lparr>revalidated := revalidated s @ [path]\<rparr>))"

section \<open>createTransaction\<close>

text \<open>
  A step of an action takes the state and returns the new state with either the
  exception it throws or its value; \<open>andThen\<close> runs the next step on a value and
  passes an exception on.
\<close>

definition andThen ::
  "(state \<Rightarrow> (exn + 'a) \<times> state) \<Rightarrow> ('a \<Rightarrow> state \<Rightarrow> (exn + 'b) \<times> state)
     \<Rightarrow> state \<Rightarrow> (exn + 'b) \<times> state" where
  "andThen m f s = (case m s of (Inl x, s') \<Rightarrow> (Inl x, s') | (Inr v, s') \<Rightarrow> f v s')"

text \<open>
  Lines 21 to 37, the caller's identity and the admission check: \<open>auth()\<close>,
  \<open>request()\<close>, \<open>aj.protect(req, {userId, requested: 1})\<close> and the branch on a denied
  decision, which writes the quota to the console when the reason is a rate limit.
\<close>

definition admission :: "env \<Rightarrow> state \<Rightarrow> (exn + string) \<times> state" where
  "admission e s =
     (case auth e of
        Inl m \<Rightarrow> (Inl (External m), s)
      | Inr None \<Rightarrow> (Inl (Error ''Unauthorized''), s)
      | Inr (Some userId) \<Rightarrow>
          if userId = [] then (Inl (Error ''Unauthorized''), s)
          else
            (case request e of
               Some m \<Rightarrow> (Inl (External m), s)
             | None \<Rightarrow>
                 (case protect e userId of
                    Inl m \<Rightarrow> (Inl (External m), s)
                  | Inr (Deny (RateLimit remaining reset)) \<Rightarrow>
                      (Inl (Error ''Too many requests. Please try again later.''),
                       s\<lparr>console := console s @ [RATE_LIMIT_EXCEEDED remaining reset]\<rparr>)
                  | Inr (Deny Blocked) \<Rightarrow> (Inl (Error ''Request blocked''), s)
                  | Inr Allow \<Rightarrow> (Inr userId, s))))"

text \<open>Lines 39 to 45: the caller's user row, then the account with the given id that
  this user owns.\<close>

definition lookup :: "env \<Rightarrow> txdata \<Rightarrow> string \<Rightarrow> state \<Rightarrow> (exn + user \<times> account) \<times> state" where
  "lookup e data userId =
     andThen (user_findUnique e userId) (\<lambda>found s.
       case found of
         None \<Rightarrow> (Inl (Error ''User not found''), s)
       | Some user \<Rightarrow>
           andThen (account_findUnique e (accountId data) (user_id user)) (\<lambda>found' s'.
             case found' of
               None \<Rightarrow> (Inl (Error ''Account not found''), s')
             | Some account \<Rightarrow> (Inr (user, account), s')) s)"

text \<open>Lines 47 and 48: the signed amount and the new balance, computed on Numbers.\<close>

definition balanceChange :: "txdata \<Rightarrow> number" where
  "balanceChange data = (if type data = ''EXPENSE'' then jsNeg (amount data) else amount data)"

definition newBalance :: "account \<Rightarrow> txdata \<Rightarrow> number" where
  "newBalance account data = jsAdd (toNumber (balance account)) (balanceChange data)"

text \<open>Lines 52 to 59, the row handed to \<open>tx.transaction.create\<close>: the fields of
  \<open>data\<close>, the user, and the next occurrence when the transaction recurs.\<close>

definition new_row :: "txdata \<Rightarrow> user \<Rightarrow> transaction" where
  "new_row data user =
     \<lparr>tx_accountId = accountId data,
      tx_userId = user_id user,
      tx_type = type data,
      tx_amount = amount data,
      tx_category = category data,
      tx_description = description data,
      tx_date = date data,
      tx_isRecurring = isRecurring data,
      tx_recurringInterval = recurringInterval data,
      tx_nextRecurringDate =
        (case recurringInterval data of
           None \<Rightarrow> None
         | Some interval \<Rightarrow>
             if isRecurring data \<and> interval \<noteq> []
             then Some (calculateNextRecurringDate (date data) interval)
             else None)\<rparr>"

text \<open>Lines 51 to 67, the callback of \<open>db.$transaction\<close>: the insert, then the update
  of the balance of the account with the given id.\<close>

definition unit_of_work ::
  "env \<Rightarrow> txdata \<Rightarrow> user \<Rightarrow> number \<Rightarrow> state \<Rightarrow> (exn + transaction) \<times> state" where
  "unit_of_work e data user nb =
     andThen (transaction_create e (new_row data user)) (\<lambda>newTransaction.
     andThen (account_update e (accountId data) nb) (\<lambda>_ s.
       (Inr newTransaction, s)))"

text \<open>Lines 13 to 16.\<close>

definition serializeAmount :: "transaction \<Rightarrow> transaction" where
  "serializeAmount obj = obj\<lparr>tx_amount := toNumber (tx_amount obj)\<rparr>"

text \<open>Lines 50 to 73: the unit of work, the two cache invalidations and the returned
  row.\<close>

definition persist ::
  "env \<Rightarrow> txdata \<Rightarrow> user \<Rightarrow> number \<Rightarrow> state \<Rightarrow> (exn + transaction) \<times> state" where
  "persist e data user nb =
     andThen (db_transaction e (unit_of_work e data user nb)) (\<lambda>transaction.
     andThen (do_revalidatePath e ''/dashboard'') (\<lambda>_.
     andThen (do_revalidatePath e (''/account/'' @ tx_accountId transaction)) (\<lambda>_ s.
       (Inr (serializeAmount transaction), s))))"

definition createTransaction_body ::
  "env \<Rightarrow> txdata \<Rightarrow> state \<Rightarrow> (exn + transaction) \<times> state" where
  "createTransaction_body e data =
     andThen (admission e) (\<lambda>userId.
     andThen (lookup e data userId) (\<lambda>(user, account).
       persist e data user (newBalance account data)))"

text \<open>
  The action itself is the body inside \<open>try\<close>/\<open>catch\<close>: an exception becomes the result
  \<open>{success: false, error: error.message}\<close>. The left summand of the outcome is an
  exception that leaves the action.
\<close>

definition createTransaction ::
  "env \<Rightarrow> txdata \<Rightarrow> state \<Rightarrow> (exn + transaction result) \<times> state" where
  "createTransaction e data s =
     (case createTransaction_body e data s of
        (Inl x, s') \<Rightarrow> (Inr (Failure (message x)), s')
      | (Inr t, s') \<Rightarrow> (Inr (Success t), s'))"

section \<open>scanReceipt\<close>

text \<open>
  The text of the oracle is cleaned with \<open>text.replace(/```(?:json)?\n?/g, "").trim()\<close>:
  every code fence, with the word \<open>json\<close> and one line feed when they follow it, is
  removed, then white space at both ends.
\<close>

function strip_fences :: "string \<Rightarrow> string" where
  "strip_fences [] = []"
| "strip_fences (c # cs) =
     (if prefix ''```'' (c # cs)
      then (let r = drop 3 (c # cs);
                r' = (if prefix ''json'' r then drop 4 r else r);
                r'' = (if prefix [CHR 0x0A] r' then drop 1 r' else r')
            in strip_fences r'')
      else c # strip_fences cs)"
  by pat_completeness auto
termination
  by (relation "measure length") (auto simp: Let_def)

declare strip_fences.simps [simp del]

definition cleanText :: "string \<Rightarrow> string" where
  "cleanText text = trim (strip_fences text)"

definition new_Date :: "env \<Rightarrow> json option \<Rightarrow> date" where
  "new_Date e v = (case v of None \<Rightarrow> InvalidDate | Some j \<Rightarrow> Date_new e j)"

record receipt =
  receipt_amount :: number
  receipt_date :: date
  receipt_description :: "json option"
  receipt_category :: "json option"
  receipt_merchantName :: "json option"

definition orThrow :: "exn + 'a \<Rightarrow> ('a \<Rightarrow> exn + 'b) \<Rightarrow> exn + 'b" where
  "orThrow r f = (case r of Inl x \<Rightarrow> Inl x | Inr v \<Rightarrow> f v)"

text \<open>
  Lines 82 to 130, the body of \<open>try\<close>: read the file, call the oracle with the image (its base64 text is a
  fixed encoding of the bytes, so the oracle is given the bytes) and its media type,
  clean and parse the text, and build the result from the fields of the parsed value.
\<close>

definition scan_body :: "env \<Rightarrow> receipt_file \<Rightarrow> exn + receipt" where
  "scan_body e file =
     (case arrayBuffer file of
        Inl m \<Rightarrow> Inl (External m)
      | Inr bytes \<Rightarrow>
          (case generateContent_image e bytes (mime_type file) of
             Inl m \<Rightarrow> Inl (External m)
           | Inr None \<Rightarrow> Inl (TypeError ''Cannot read properties of undefined (reading replace)'')
           | Inr (Some text) \<Rightarrow>
               (case JSON_parse e (cleanText text) of
                  Inl m \<Rightarrow> Inl (SyntaxError m)
                | Inr data \<Rightarrow>
                    orThrow (get_prop data ''amount'') (\<lambda>a.
                    orThrow (get_prop data ''date'') (\<lambda>d.
                    orThrow (get_prop data ''description'') (\<lambda>ds.
                    orThrow (get_prop data ''category'') (\<lambda>c.
                    orThrow (get_prop data ''merchantName'') (\<lambda>mn.
                      Inr \<lparr>receipt_amount = parseFloat a,
                           receipt_date = new_Date e d,
                           receipt_description = ds,
                           receipt_category = c,
                           receipt_merchantName = mn\<rparr>))))))))"

text \<open>Lines 131 to 134: the handler of \<open>catch\<close> writes the exception to the console and
  throws a new one.\<close>

definition scanReceipt :: "env \<Rightarrow> receipt_file \<Rightarrow> state \<Rightarrow> (exn + receipt) \<times> state" where
  "scanReceipt e file s =
     (case scan_body e file of
        Inl x \<Rightarrow> (Inl (Error ''Failed to scan receipt''), s\<lparr>console := console s @ [ScanError x]\<rparr>)
      | Inr r \<Rightarrow> (Inr r, s))"

section \<open>createTransactionFromPrompt\<close>

text \<open>Lines 140 to 149: the identity, the user row and the first account of the user
  marked default. There is no admission check here.\<close>

definition resolve_default :: "env \<Rightarrow> state \<Rightarrow> (exn + account) \<times> state" where
  "resolve_default e s =
     (case auth e of
        Inl m \<Rightarrow> (Inl (External m), s)
      | Inr None \<Rightarrow> (Inl (Error ''Unauthorized''), s)
      | Inr (Some userId) \<Rightarrow>
          if userId = [] then (Inl (Error ''Unauthorized''), s)
          else
            andThen (user_findUnique e userId) (\<lambda>found s1.
              case found of
                None \<Rightarrow> (Inl (Error ''User not found''), s1)
              | Some user \<Rightarrow>
                  andThen (account_findFirst_default e (user_id user)) (\<lambda>found' s2.
                    case found' of
                      None \<Rightarrow> (Inl (Error ''No default account found''), s2)
                    | Some defaultAccount \<Rightarrow> (Inr defaultAccount, s2)) s1) s)"

text \<open>Lines 171 to 183: the oracle call (the instruction text around the prompt is
  fixed, so the oracle is given the prompt), the cleaning and the inner \<open>try\<close> around
  JSON.parse.\<close>

definition extraction :: "env \<Rightarrow> string \<Rightarrow> exn + json" where
  "extraction e prompt =
     (case generateContent e prompt of
        Inl m \<Rightarrow> Inl (External m)
      | Inr None \<Rightarrow> Inl (TypeError ''Cannot read properties of undefined (reading replace)'')
      | Inr (Some text) \<Rightarrow>
          (case JSON_parse e (cleanText text) of
             Inl m \<Rightarrow> Inl (Error ''Could not parse transaction details from prompt'')
           | Inr data \<Rightarrow> Inr data))"

text \<open>Lines 185 to 187, the check \<open>!data.amount || !data.type || !data.category\<close>.\<close>

definition validate :: "json \<Rightarrow> exn + unit" where
  "validate data =
     (case get_prop data ''amount'' of
        Inl x \<Rightarrow> Inl x
      | Inr a \<Rightarrow>
          if \<not> truthy a then Inl (Error ''Incomplete transaction details extracted'')
          else
            (case get_prop data ''type'' of
               Inl x \<Rightarrow> Inl x
             | Inr t \<Rightarrow>
                 if \<not> truthy t then Inl (Error ''Incomplete transaction details extracted'')
                 else
                   (case get_prop data ''category'' of
                      Inl x \<Rightarrow> Inl x
                    | Inr c \<Rightarrow>
                        if \<not> truthy c then Inl (Error ''Incomplete transaction details extracted'')
                        else Inr ())))"

text \<open>
  Lines 189 to 197, the object \<open>transactionData\<close>. Its first computed member is \<open>data.type.toUpperCase()\<close>,
  which throws a TypeError unless \<open>data.type\<close> is a string.
\<close>

definition transactionData :: "env \<Rightarrow> account \<Rightarrow> json \<Rightarrow> exn + txdata" where
  "transactionData e defaultAccount data =
     (case get_prop data ''type'' of
        Inl x \<Rightarrow> Inl x
      | Inr (Some (JStr t)) \<Rightarrow>
          Inr \<lparr>accountId = account_id defaultAccount,
               type = toUpperCase t,
               amount = ToNumber (field_of data ''amount''),
               category = field_of data ''category'',
               description = (if truthy (field_of data ''description'') then field_of data ''description''
                              else field_of data ''category''),
               date = (if truthy (field_of data ''date'') then new_Date e (field_of data ''date'')
                       else now e),
               isRecurring = False,
               recurringInterval = None\<rparr>
      | Inr _ \<Rightarrow> Inl (TypeError ''data.type.toUpperCase is not a function''))"

text \<open>Lines 139 to 203: the body, which ends in the createTransaction call, and the
  action around it.\<close>

definition lift :: "exn + 'a \<Rightarrow> state \<Rightarrow> (exn + 'a) \<times> state" where
  "lift r s = (r, s)"

definition createTransactionFromPrompt_body ::
  "env \<Rightarrow> string \<Rightarrow> state \<Rightarrow> (exn + transaction result) \<times> state" where
  "createTransactionFromPrompt_body e prompt =
     andThen (resolve_default e) (\<lambda>defaultAccount.
     andThen (lift (extraction e prompt)) (\<lambda>data.
     andThen (lift (validate data)) (\<lambda>_.
     andThen (lift (transactionData e defaultAccount data)) (\<lambda>td.
       createTransaction e td))))"

definition createTransactionFromPrompt ::
  "env \<Rightarrow> string \<Rightarrow> state \<Rightarrow> (exn + transaction result) \<times> state" where
  "createTransactionFromPrompt e prompt s =
     (case createTransactionFromPrompt_body e prompt s of
        (Inl x, s') \<Rightarrow> (Inr (Failure (message x)), s')
      | (Inr r, s') \<Rightarrow> (Inr r, s'))"

section \<open>Overlapping calls\<close>

text \<open>
  Calls of createTransaction that overlap share the store. A call gives way to other
  calls at its \<open>await\<close>s; the model lets a call run from its start up to the \<open>await\<close> of
  \<open>db.$transaction\<close> in one piece (the caller is identified and admitted, the user and
  the account are read, the new balance is computed), and from there to its end in a
  second piece. A schedule names the call that runs its next piece.
\<close>

datatype call =
    Pending env txdata
  | Prepared env txdata user number
  | Done "transaction result"

fun advance :: "call \<Rightarrow> state \<Rightarrow> call \<times> state" where
  "advance (Pending e data) s =
     (case andThen (admission e) (lookup e data) s of
        (Inl x, s') \<Rightarrow> (Done (Failure (message x)), s')
      | (Inr (user, account), s') \<Rightarrow> (Prepared e data user (newBalance account data), s'))"
| "advance (Prepared e data user nb) s =
     (case persist e data user nb s of
        (Inl x, s') \<Rightarrow> (Done (Failure (message x)), s')
      | (Inr t, s') \<Rightarrow> (Done (Success t), s'))"
| "advance (Done r) s = (Done r, s)"

fun run :: "nat list \<Rightarrow> call list \<times> state \<Rightarrow> call list \<times> state" where
  "run [] c = c"
| "run (i # sched) (calls, s) =
     (if i < length calls
      then (case advance (calls ! i) s of (c', s') \<Rightarrow> run sched (calls[i := c'], s'))
      else run sched (calls, s))"

section \<open>Notions used in the statements\<close>

text \<open>
  The store after both writes of the unit of work: the new row is the last of the
  transactions, and the account with the given id has the new balance.
\<close>

definition both_written :: "txdata \<Rightarrow> user \<Rightarrow> number \<Rightarrow> database \<Rightarrow> database" where
  "both_written data user nb d =
     d\<lparr>transactions := transactions d @ [new_row data user],
       accounts := map (set_balance (accountId data) nb) (accounts d)\<rparr>"

text \<open>The result a call has returned, if it has.\<close>

fun outcome :: "call \<Rightarrow> transaction result option" where
  "outcome (Done r) = Some r"
| "outcome _ = None"

section \<open>A small store and its callers\<close>

text \<open>
  The concrete runs below use a store with two users, each owning one account, a caller
  signed in as the first user whom the admission check lets through, and an oracle with
  fixed replies. JSON.parse and the Date constructor of this host are given on the texts
  that occur in the runs.
\<close>

definition alice :: user where
  "alice = \<lparr>user_id = ''u1'', clerkUserId = ''clerk_alice''\<rparr>"

definition bob :: user where
  "bob = \<lparr>user_id = ''u2'', clerkUserId = ''clerk_bob''\<rparr>"

definition alice_account :: account where
  "alice_account =
     \<lparr>account_id = ''a1'', account_userId = ''u1'', balance = Finite 100, isDefault = True\<rparr>"

definition bob_account :: account where
  "bob_account =
     \<lparr>account_id = ''a2'', account_userId = ''u2'', balance = Finite 50, isDefault = True\<rparr>"

definition store0 :: database where
  "store0 = \<lparr>users = [alice, bob], accounts = [alice_account, bob_account], transactions = []\<rparr>"

definition state0 :: state where
  "state0 = \<lparr>db = store0, trace = [], console = [], revalidated = []\<rparr>"

text \<open>Two replies of the oracle, as text and as JSON.parse reads them.\<close>

definition zero_amount_text :: string where
  \<open>zero_amount_text = ''{"type": "EXPENSE", "amount": 0, "category": "food"}''\<close>

definition zero_amount_json :: json where
  "zero_amount_json =
     JObj [(''type'', JStr ''EXPENSE''), (''amount'', JNum (Finite 0)), (''category'', JStr ''food'')]"

definition lunch_text :: string where
  \<open>lunch_text = ''{"type": "expense", "amount": 500, "category": "food", "description": ""}''\<close>

definition lunch_json :: json where
  "lunch_json =
     JObj [(''type'', JStr ''expense''), (''amount'', JNum (Finite 500)),
           (''category'', JStr ''food''), (''description'', JStr [])]"

definition fenced :: "string \<Rightarrow> string" where
  "fenced t = ''```json'' @ [CHR 0x0A] @ t @ [CHR 0x0A] @ ''```''"

definition parse_table :: "string \<Rightarrow> string + json" where
  "parse_table t =
     (if t = ''{}'' then Inr (JObj [])
      else if t = zero_amount_text then Inr zero_amount_json
      else if t = lunch_text then Inr lunch_json
      else Inl ''Unexpected token'')"

definition env0 :: env where
  "env0 =
     \<lparr>auth = Inr (Some ''clerk_alice''),
      request = None,
      protect = (\<lambda>_. Inr Allow),
      db_fault = (\<lambda>_. None),
      commit_fault = None,
      revalidatePath = (\<lambda>_. None),
      generateContent = (\<lambda>prompt. if prompt = ''Spent 500 on lunch''
                                   then Inr (Some (fenced lunch_text))
                                   else Inr (Some (fenced zero_amount_text))),
      generateContent_image = (\<lambda>_ _. Inr (Some ''{}'')),
      JSON_parse = parse_table,
      Date_new = (\<lambda>j. if j = JStr ''2024-01-31'' then Date 2024 0 31 0 else InvalidDate),
      now = Date 2026 0 1 0\<rparr>"

definition env_denied :: env where
  "env_denied = env0\<lparr>protect := (\<lambda>_. Inr (Deny (RateLimit 0 60)))\<rparr>"

definition env_anonymous :: env where
  "env_anonymous = env0\<lparr>auth := Inr None\<rparr>"

definition env_oracle_down :: env where
  "env_oracle_down = env0\<lparr>generateContent_image := (\<lambda>_ _. Inl ''fetch failed'')\<rparr>"

definition income10 :: txdata where
  "income10 =
     \<lparr>accountId = ''a1'', type = ''INCOME'', amount = Finite 10,
      category = Some (JStr ''salary''), description = Some (JStr ''pay''),
      date = Date 2024 0 31 0, isRecurring = True, recurringInterval = Some ''MONTHLY''\<rparr>"

definition into_bobs_account :: txdata where
  "into_bobs_account = income10\<lparr>accountId := ''a2''\<rparr>"

definition income1 :: txdata where
  "income1 = income10\<lparr>amount := Finite 1, isRecurring := False, recurringInterval := None\<rparr>"

definition large_state :: state where
  "large_state =
     state0\<lparr>db := store0\<lparr>accounts :=
       [alice_account\<lparr>balance := Finite 9007199254740992\<rparr>, bob_account]\<rparr>\<rparr>"

definition photo :: receipt_file where
  "photo = \<lparr>arrayBuffer = Inr ''JFIF'', mime_type = ''image/jpeg''\<rparr>"

section \<open>The steps of createTransaction\<close>

lemma andThen_Inr:
  assumes "andThen m f s = (Inr v, s')"
  obtains w s1 where "m s = (Inr w, s1)" "f w s1 = (Inr v, s')"
  using assms by (auto simp: andThen_def split: prod.splits sum.splits)

lemma andThen_Inl:
  assumes "andThen m f s = (Inl x, s')"
  obtains "m s = (Inl x, s')" | w s1 where "m s = (Inr w, s1)" "f w s1 = (Inl x, s')"
  using assms by (auto simp: andThen_def split: prod.splits sum.splits)

lemma admission_Inr:
  assumes "admission e s = (Inr uid, s')"
  shows "s' = s \<and> auth e = Inr (Some uid) \<and> uid \<noteq> [] \<and> request e = None
         \<and> protect e uid = Inr Allow"
  using assms
  by (auto simp: admission_def
      split: sum.splits option.splits if_splits decision.splits reason.splits)

lemma admission_db: "db (snd (admission e s)) = db s \<and> trace (snd (admission e s)) = trace s
    \<and> revalidated (snd (admission e s)) = revalidated s"
  by (auto simp: admission_def
      split: sum.splits option.splits if_splits decision.splits reason.splits)

lemma user_findUnique_state:
  "snd (user_findUnique e cid s) = sent (FindUser cid) s"
  by (simp add: user_findUnique_def split: option.splits)

lemma user_findUnique_Inr:
  "user_findUnique e cid s = (Inr r, s') \<Longrightarrow>
     r = find (\<lambda>u. clerkUserId u = cid) (users (db s)) \<and> s' = sent (FindUser cid) s
     \<and> db_fault e (FindUser cid) = None"
  by (auto simp: user_findUnique_def split: option.splits)

lemma account_findUnique_state:
  "snd (account_findUnique e aid uid s) = sent (FindAccount aid uid) s"
  by (simp add: account_findUnique_def split: option.splits)

lemma account_findUnique_Inr:
  "account_findUnique e aid uid s = (Inr r, s') \<Longrightarrow>
     r = find (\<lambda>a. account_id a = aid \<and> account_userId a = uid) (accounts (db s))
     \<and> s' = sent (FindAccount aid uid) s \<and> db_fault e (FindAccount aid uid) = None"
  by (auto simp: account_findUnique_def split: option.splits)

lemma sent_simps [simp]:
  "db (sent op s) = db s" "trace (sent op s) = trace s @ [op]"
  "console (sent op s) = console s" "revalidated (sent op s) = revalidated s"
  by (simp_all add: sent_def)

lemma lookup_db: "db (snd (lookup e data uid s)) = db s
    \<and> revalidated (snd (lookup e data uid s)) = revalidated s
    \<and> console (snd (lookup e data uid s)) = console s"
  by (auto simp: lookup_def andThen_def user_findUnique_def account_findUnique_def
      split: prod.splits sum.splits option.splits)

lemma lookup_Inr:
  assumes "lookup e data uid s = (Inr (u, a), s')"
  shows "find (\<lambda>u. clerkUserId u = uid) (users (db s)) = Some u
         \<and> find (\<lambda>a. account_id a = accountId data \<and> account_userId a = user_id u)
              (accounts (db s)) = Some a
         \<and> db s' = db s \<and> revalidated s' = revalidated s \<and> console s' = console s
         \<and> trace s' = trace s @ [FindUser uid, FindAccount (accountId data) (user_id u)]"
  using assms
  by (auto simp: lookup_def andThen_def user_findUnique_def account_findUnique_def
      split: prod.splits sum.splits option.splits)

lemma do_revalidatePath_db:
  "db (snd (do_revalidatePath e p s)) = db s \<and> trace (snd (do_revalidatePath e p s)) = trace s"
  by (simp add: do_revalidatePath_def split: option.splits)

lemma unit_of_work_Inr:
  assumes "unit_of_work e data u nb s = (Inr t, s')"
  shows "t = new_row data u \<and> db s' = both_written data u nb (db s)"
  using assms
  by (auto simp: unit_of_work_def andThen_def transaction_create_def account_update_def
        both_written_def sent_def
      split: prod.splits sum.splits option.splits if_splits)


lemma db_transaction_Inr:
  "db_transaction e f s = (Inr v, s') \<Longrightarrow> f s = (Inr v, s') \<and> commit_fault e = None"
  by (auto simp: db_transaction_def split: prod.splits sum.splits option.splits)


lemma persist_Inr:
  assumes "persist e data u nb s = (Inr t, s')"
  shows "t = serializeAmount (new_row data u) \<and> db s' = both_written data u nb (db s)"
proof -
  from assms obtain t0 s1 where a: "db_transaction e (unit_of_work e data u nb) s = (Inr t0, s1)"
    and b: "andThen (do_revalidatePath e ''/dashboard'') (\<lambda>_.
              andThen (do_revalidatePath e (''/account/'' @ tx_accountId t0)) (\<lambda>_ s.
                (Inr (serializeAmount t0), s))) s1 = (Inr t, s')"
    unfolding persist_def by (rule andThen_Inr)
  from db_transaction_Inr [OF a] unit_of_work_Inr
  have c: "t0 = new_row data u \<and> db s1 = both_written data u nb (db s)" by blast
  from b have "t = serializeAmount t0 \<and> db s' = db s1"
    by (auto simp: andThen_def do_revalidatePath_def split: prod.splits sum.splits option.splits)
  with c show ?thesis by simp
qed



section \<open>Rounding of whole numbers\<close>

lemma round_half_even_of_int: "round_half_even (of_int j) = j"
  by (simp add: round_half_even_def)

lemma bitlen_pos: "0 < n \<Longrightarrow> 1 \<le> bitlen n"
  using bitlen_eq_zero_iff [of n] bitlen_nonneg [of n] by linarith

lemma ilog2_of_int:
  assumes "n \<noteq> 0"
  shows "ilog2 (of_int n) = bitlen \<bar>n\<bar> - 1"
proof -
  have pos: "0 < \<bar>n\<bar>" using assms by simp
  have q: "quotient_of (of_int \<bar>n\<bar>) = (\<bar>n\<bar>, 1)"
    by (rule quotient_of_rat_of_int)
  have b1: "bitlen 1 = 1" by (simp add: bitlen_alt_def)
  have ge: "1 \<le> bitlen \<bar>n\<bar>" using pos by (rule bitlen_pos)
  from bitlen_bounds [OF pos] have "2 ^ nat (bitlen \<bar>n\<bar> - 1) \<le> \<bar>n\<bar>" by simp
  then have "(of_int (2 ^ nat (bitlen \<bar>n\<bar> - 1)) :: rat) \<le> of_int \<bar>n\<bar>"
    by (simp only: of_int_le_iff)
  then have p: "pow2 (bitlen \<bar>n\<bar> - 1) \<le> of_int \<bar>n\<bar>"
    using ge by (simp add: pow2_def)
  have "ilog2 (of_int n) = (let (p, q) = quotient_of (of_int \<bar>n\<bar>); k = bitlen p - bitlen q
              in if pow2 k \<le> of_int \<bar>n\<bar> then k else k - 1)"
    by (simp add: ilog2_def)
  also have "\<dots> = bitlen \<bar>n\<bar> - 1"
    unfolding q using p b1 by simp
  finally show ?thesis .
qed

lemma fl_of_int:
  assumes "\<bar>n\<bar> \<le> 2 ^ 53"
  shows "fl (of_int n) = Finite (of_int n)"
proof (cases "n = 0")
  case True
  then show ?thesis by (simp add: fl_def)
next
  case False
  define k where "k = bitlen \<bar>n\<bar> - 1"
  have pos: "0 < \<bar>n\<bar>" using False by simp
  have k0: "0 \<le> k" using pos by (simp add: k_def bitlen_alt_def)
  have lo: "2 ^ nat k \<le> \<bar>n\<bar>" using bitlen_bounds [OF pos] by (simp add: k_def)
  with assms have "(2::int) ^ nat k \<le> 2 ^ 53" by linarith
  then have "nat k \<le> 53" by (rule power_le_imp_le_exp [rotated]) simp
  then have k53: "k \<le> 53" by simp
  have il: "ilog2 (of_int n) = k" using ilog2_of_int [OF False] by (simp add: k_def)
  have e: "max k (- 1022) = k" using k0 by simp
  have small: "\<not> (1024 \<le> k \<or> (k = 1023 \<and> \<bar>round_half_even (of_int n / pow2 (k - 52))\<bar> = 2 ^ 53))"
    using k53 by simp
  have r: "of_int (round_half_even (of_int n / pow2 (k - 52))) * pow2 (k - 52) = (of_int n :: rat)"
  proof (cases "k \<le> 52")
    case True
    then have u: "pow2 (k - 52) = 1 / 2 ^ nat (52 - k)" 
      by (cases "k = 52") (simp_all add: pow2_def)
    have d: "(of_int n :: rat) / pow2 (k - 52) = of_int (n * 2 ^ nat (52 - k))"
      by (simp add: u)
    have "round_half_even (of_int n / pow2 (k - 52)) = n * 2 ^ nat (52 - k)"
      unfolding d by (rule round_half_even_of_int)
    then have "of_int (round_half_even (of_int n / pow2 (k - 52))) * pow2 (k - 52)
                 = (of_int (n * 2 ^ nat (52 - k)) :: rat) * (1 / 2 ^ nat (52 - k))"
      by (simp only: u)
    also have "\<dots> = of_int n" by simp
    finally show ?thesis .
  next
    case False
    with k53 have k: "k = 53" by simp
    with lo assms have a: "\<bar>n\<bar> = 2 ^ 53" by simp
    have "even \<bar>n\<bar>" unfolding a by simp
    then have "even n" by simp
    then have ev: "n = 2 * (n div 2)" by simp
    have u: "pow2 (k - 52) = 2" by (simp add: k pow2_def)
    have "(of_int n :: rat) = of_int (2 * (n div 2))" by (rule arg_cong [OF ev])
    also have "\<dots> = 2 * of_int (n div 2)" by simp
    finally have d: "(of_int n :: rat) / 2 = of_int (n div 2)" by simp
    have "round_half_even (of_int n / pow2 (k - 52)) = n div 2"
      unfolding u d by (rule round_half_even_of_int)
    then have "of_int (round_half_even (of_int n / pow2 (k - 52))) * pow2 (k - 52)
                 = (of_int (n div 2) :: rat) * 2"
      by (simp only: u)
    also have "\<dots> = of_int (2 * (n div 2))" by simp
    also have "\<dots> = of_int n" by (rule arg_cong [OF ev [symmetric]])
    finally show ?thesis .
  qed
  show ?thesis
    using False small r by (simp add: fl_def il e Let_def)
qed

section \<open>The steps of createTransactionFromPrompt\<close>

lemma createTransaction_returns: "\<exists>r. fst (createTransaction e data s) = Inr r"
  by (simp add: createTransaction_def split: prod.splits sum.splits)







section \<open>The balance after a successful call\<close>

lemma jsAdd_whole:
  assumes "\<bar>b + a\<bar> \<le> 2 ^ 53"
  shows "jsAdd (Finite (of_int b)) (Finite (of_int a)) = Finite (of_int (b + a))"
  using fl_of_int [OF assms] by simp

lemma serializeAmount_id: "serializeAmount t = t"
  by (simp add: serializeAmount_def toNumber_def)

lemma createTransaction_Success:
  assumes "createTransaction e data s = (Inr (Success t), s')"
  shows "\<exists>uid user account.
           auth e = Inr (Some uid) \<and> protect e uid = Inr Allow
           \<and> find (\<lambda>u. clerkUserId u = uid) (users (db s)) = Some user
           \<and> find (\<lambda>a. account_id a = accountId data \<and> account_userId a = user_id user)
                (accounts (db s)) = Some account
           \<and> db s' = both_written data user (newBalance account data) (db s)
           \<and> t = new_row data user"
proof -
  from assms have b: "createTransaction_body e data s = (Inr t, s')"
    by (auto simp: createTransaction_def split: prod.splits sum.splits)
  then obtain uid s1 where a: "admission e s = (Inr uid, s1)"
    and r: "andThen (lookup e data uid) (\<lambda>(user, account).
              persist e data user (newBalance account data)) s1 = (Inr t, s')"
    unfolding createTransaction_body_def by (rule andThen_Inr)
  from r obtain ua s2 where l: "lookup e data uid s1 = (Inr ua, s2)"
    and p0: "(case ua of (user, account) \<Rightarrow> persist e data user (newBalance account data)) s2
               = (Inr t, s')"
    by (rule andThen_Inr)
  obtain user account where ua: "ua = (user, account)" by (cases ua)
  from p0 ua have p: "persist e data user (newBalance account data) s2 = (Inr t, s')" by simp
  from admission_Inr [OF a] have s1: "s1 = s" "auth e = Inr (Some uid)" "protect e uid = Inr Allow"
    by simp_all
  from lookup_Inr [OF l [unfolded ua s1]]
  have f: "find (\<lambda>u. clerkUserId u = uid) (users (db s)) = Some user"
    "find (\<lambda>a. account_id a = accountId data \<and> account_userId a = user_id user)
       (accounts (db s)) = Some account"
    "db s2 = db s" by simp_all
  from persist_Inr [OF p] f(3)
  have "t = new_row data user" "db s' = both_written data user (newBalance account data) (db s)"
    by (simp_all add: serializeAmount_id)
  with s1 f show ?thesis by blast
qed

text \<open>
  C1, as the code has it. For every successful createTransaction call there are the
  caller's user row and the account of that user with the given id such that: the
  account's new balance is the Number sum of its balance and the signed amount (the
  amount negated for EXPENSE), that is, the exact sum rounded to the nearest binary64
  value; every other account keeps its balance; exactly one transaction row, the row of
  this call, is added. The new balance is the exact sum whenever balance and amount are
  whole numbers and the exact sum lies within 2^53 in magnitude.
\<close>

theorem createTransaction_balance:
  assumes "createTransaction e data s = (Inr (Success t), s')"
  shows "\<exists>user account.
           find (\<lambda>a. account_id a = accountId data \<and> account_userId a = user_id user)
             (accounts (db s)) = Some account
           \<and> accounts (db s') =
               map (set_balance (accountId data)
                      (jsAdd (balance account)
                         (if type data = ''EXPENSE'' then jsNeg (amount data) else amount data)))
                 (accounts (db s))
           \<and> transactions (db s') = transactions (db s) @ [new_row data user]
           \<and> length (transactions (db s')) = length (transactions (db s)) + 1
           \<and> users (db s') = users (db s)
           \<and> (\<forall>b a. balance account = Finite (of_int b) \<and> amount data = Finite (of_int a)
                  \<and> \<bar>b\<bar> + \<bar>a\<bar> \<le> 2 ^ 53
                \<longrightarrow> jsAdd (balance account)
                       (if type data = ''EXPENSE'' then jsNeg (amount data) else amount data)
                     = Finite (of_int (if type data = ''EXPENSE'' then b - a else b + a)))"
proof -
  from createTransaction_Success [OF assms] obtain user account where
    f: "find (\<lambda>a. account_id a = accountId data \<and> account_userId a = user_id user)
          (accounts (db s)) = Some account"
    and d: "db s' = both_written data user (newBalance account data) (db s)"
    by blast
  have nb: "newBalance account data =
              jsAdd (balance account)
                (if type data = ''EXPENSE'' then jsNeg (amount data) else amount data)"
    by (simp add: newBalance_def balanceChange_def toNumber_def)
  have ex: "jsAdd (balance account)
              (if type data = ''EXPENSE'' then jsNeg (amount data) else amount data)
            = Finite (of_int (if type data = ''EXPENSE'' then b - a else b + a))"
    if h: "balance account = Finite (of_int b) \<and> amount data = Finite (of_int a)
           \<and> \<bar>b\<bar> + \<bar>a\<bar> \<le> 2 ^ 53" for b a :: int
  proof (cases "type data = ''EXPENSE''")
    case True
    from h have "\<bar>b + (- a)\<bar> \<le> 2 ^ 53" by linarith
    from jsAdd_whole [OF this] h True show ?thesis by simp
  next
    case False
    from h have "\<bar>b + a\<bar> \<le> 2 ^ 53" by linarith
    from jsAdd_whole [OF this] h False show ?thesis by simp
  qed
  show ?thesis
    using f d nb ex by (intro exI [of _ user] exI [of _ account]) (simp add: both_written_def)
qed

theorem createTransaction_balance_witness:
  "createTransaction env0 income10 state0
     = (Inr (Success (new_row income10 alice)), snd (createTransaction env0 income10 state0))
   \<and> (\<exists>user account.
         find (\<lambda>a. account_id a = accountId income10 \<and> account_userId a = user_id user)
           (accounts (db state0)) = Some account
         \<and> accounts (db (snd (createTransaction env0 income10 state0))) =
             map (set_balance (accountId income10)
                    (jsAdd (balance account)
                       (if type income10 = ''EXPENSE'' then jsNeg (amount income10)
                        else amount income10)))
               (accounts (db state0))
         \<and> transactions (db (snd (createTransaction env0 income10 state0)))
             = transactions (db state0) @ [new_row income10 user]
         \<and> length (transactions (db (snd (createTransaction env0 income10 state0))))
             = length (transactions (db state0)) + 1
         \<and> users (db (snd (createTransaction env0 income10 state0))) = users (db state0)
         \<and> (\<forall>b a. balance account = Finite (of_int b) \<and> amount income10 = Finite (of_int a)
                  \<and> \<bar>b\<bar> + \<bar>a\<bar> \<le> 2 ^ 53
                \<longrightarrow> jsAdd (balance account)
                       (if type income10 = ''EXPENSE'' then jsNeg (amount income10)
                        else amount income10)
                     = Finite (of_int (if type income10 = ''EXPENSE'' then b - a else b + a))))
   \<and> map balance (accounts (db (snd (createTransaction env0 income10 state0))))
       = [Finite 110, Finite 50]"
proof -
  have v: "fst (createTransaction env0 income10 state0) = Inr (Success (new_row income10 alice))"
    by code_simp
  then have c: "createTransaction env0 income10 state0
     = (Inr (Success (new_row income10 alice)), snd (createTransaction env0 income10 state0))"
    by (cases "createTransaction env0 income10 state0") simp
  have b: "map balance (accounts (db (snd (createTransaction env0 income10 state0))))
             = [Finite 110, Finite 50]"
    by code_simp
  from createTransaction_balance [OF c] c b show ?thesis by (intro conjI)
qed

text \<open>
  Decimal amounts with cents already round: the Number sum of the Numbers for 0.1 and
  0.2 is not the Number for 0.3.
\<close>

lemma jsAdd_tenths:
  "(case (fl (1 / 10), fl (2 / 10)) of
      (Finite a, Finite b) \<Rightarrow> jsAdd (Finite a) (Finite b) \<noteq> fl (3 / 10) | _ \<Rightarrow> False)"
  by code_simp

text \<open>
  The claim of an exact balance fails where the exact sum is not a binary64 value: an
  income of 1 on a balance of 2^53 = 9007199254740992 succeeds, records its row, and
  leaves the balance at 9007199254740992.
\<close>

theorem createTransaction_balance_rounded:
  "fst (createTransaction env0 income1 large_state) = Inr (Success (new_row income1 alice))
   \<and> type income1 = ''INCOME'' \<and> amount income1 = Finite 1
   \<and> map balance (accounts (db large_state)) = [Finite 9007199254740992, Finite 50]
   \<and> map balance (accounts (db (snd (createTransaction env0 income1 large_state))))
       = [Finite 9007199254740992, Finite 50]
   \<and> map balance (accounts (db (snd (createTransaction env0 income1 large_state))))
       \<noteq> [Finite (9007199254740992 + 1), Finite 50]"
  by code_simp

section \<open>The two writes are one unit\<close>



section \<open>A denied request\<close>

lemma createTransaction_denied:
  assumes "auth e = Inr (Some uid)" "uid \<noteq> []" "request e = None" "protect e uid = Inr (Deny r)"
  shows "createTransaction e data s =
           (case r of
              RateLimit remaining reset \<Rightarrow>
                (Inr (Failure ''Too many requests. Please try again later.''),
                 s\<lparr>console := console s @ [RATE_LIMIT_EXCEEDED remaining reset]\<rparr>)
            | Blocked \<Rightarrow> (Inr (Failure ''Request blocked''), s))"
  using assms
  by (cases r)
     (simp_all add: createTransaction_def createTransaction_body_def andThen_def admission_def)

lemma createTransaction_trace_admitted:
  assumes "trace (snd (createTransaction e data s)) \<noteq> trace s"
  shows "\<exists>uid. auth e = Inr (Some uid) \<and> protect e uid = Inr Allow"
proof (cases "admission e s")
  case (Pair r s1)
  show ?thesis
  proof (cases r)
    case (Inl x)
    with Pair admission_db [of e s] assms show ?thesis
      by (simp add: createTransaction_def createTransaction_body_def andThen_def)
  next
    case (Inr uid)
    with Pair admission_Inr [of e s uid s1] show ?thesis by blast
  qed
qed

text \<open>
  C3. Whenever the admission check of a createTransaction call denies the request, the
  call returns the rate-limit failure or the request-blocked failure, nothing is sent to
  the store (no user or account lookup, no insert, no update), the store and the
  revalidated paths are unchanged, and the only effect is the console line of a rate
  limit. The check comes before every data access: a call that sends anything to the
  store was admitted.
\<close>

theorem denied_call_never_reaches_store:
  "(auth e = Inr (Some uid) \<and> uid \<noteq> [] \<and> request e = None \<and> protect e uid = Inr (Deny r)
      \<longrightarrow> (fst (createTransaction e data s) = Inr (Failure ''Too many requests. Please try again later.'')
             \<or> fst (createTransaction e data s) = Inr (Failure ''Request blocked''))
          \<and> db (snd (createTransaction e data s)) = db s
          \<and> trace (snd (createTransaction e data s)) = trace s
          \<and> revalidated (snd (createTransaction e data s)) = revalidated s)
   \<and> (trace (snd (createTransaction e data s)) \<noteq> trace s
      \<longrightarrow> (\<exists>u. auth e = Inr (Some u) \<and> protect e u = Inr Allow))"
proof (intro conjI impI)
  assume a: "auth e = Inr (Some uid) \<and> uid \<noteq> [] \<and> request e = None \<and> protect e uid = Inr (Deny r)"
  then have c: "createTransaction e data s =
           (case r of
              RateLimit remaining reset \<Rightarrow>
                (Inr (Failure ''Too many requests. Please try again later.''),
                 s\<lparr>console := console s @ [RATE_LIMIT_EXCEEDED remaining reset]\<rparr>)
            | Blocked \<Rightarrow> (Inr (Failure ''Request blocked''), s))"
    using createTransaction_denied [of e uid r data s] by blast
  show "fst (createTransaction e data s) = Inr (Failure ''Too many requests. Please try again later.'')
        \<or> fst (createTransaction e data s) = Inr (Failure ''Request blocked'')"
    unfolding c by (cases r) simp_all
  show "db (snd (createTransaction e data s)) = db s"
    unfolding c by (cases r) simp_all
  show "trace (snd (createTransaction e data s)) = trace s"
    unfolding c by (cases r) simp_all
  show "revalidated (snd (createTransaction e data s)) = revalidated s"
    unfolding c by (cases r) simp_all
next
  assume "trace (snd (createTransaction e data s)) \<noteq> trace s"
  then show "\<exists>u. auth e = Inr (Some u) \<and> protect e u = Inr Allow"
    by (rule createTransaction_trace_admitted)
qed

theorem denied_call_never_reaches_store_witness:
  "createTransaction env_denied income10 state0
     = (Inr (Failure ''Too many requests. Please try again later.''),
        state0\<lparr>console := [RATE_LIMIT_EXCEEDED 0 60]\<rparr>)
   \<and> db (snd (createTransaction env_denied income10 state0)) = store0
   \<and> trace (snd (createTransaction env_denied income10 state0)) = []
   \<and> trace (snd (createTransaction env0 income10 state0)) \<noteq> trace state0
   \<and> (\<exists>u. auth env0 = Inr (Some u) \<and> protect env0 u = Inr Allow)"
proof -
  have h: "auth env_denied = Inr (Some ''clerk_alice'') \<and> ''clerk_alice'' \<noteq> []
           \<and> request env_denied = None
           \<and> protect env_denied ''clerk_alice'' = Inr (Deny (RateLimit 0 60))"
    by (simp add: env_denied_def env0_def)
  have v: "createTransaction env_denied income10 state0
     = (Inr (Failure ''Too many requests. Please try again later.''),
        state0\<lparr>console := [RATE_LIMIT_EXCEEDED 0 60]\<rparr>)"
    by code_simp
  have t: "trace (snd (createTransaction env0 income10 state0)) \<noteq> trace state0"
    by code_simp
  have s: "db state0 = store0" "trace state0 = []" by (simp_all add: state0_def)
  from denied_call_never_reaches_store
         [of env_denied "''clerk_alice''" "RateLimit 0 60" income10 state0] h
  have "db (snd (createTransaction env_denied income10 state0)) = db state0
        \<and> trace (snd (createTransaction env_denied income10 state0)) = trace state0"
    by blast
  moreover from denied_call_never_reaches_store [of env0 _ _ income10 state0] t
  have "\<exists>u. auth env0 = Inr (Some u) \<and> protect env0 u = Inr Allow" by blast
  ultimately show ?thesis using v t s by simp
qed

text \<open>
  The order holds inside createTransaction. A prompt reaches that check only after
  createTransactionFromPrompt has looked up the user and the default account and has
  called the oracle.
\<close>

lemma prompt_denied_after_lookups:
  "createTransactionFromPrompt env_denied ''Spent 500 on lunch'' state0
     = (Inr (Failure ''Too many requests. Please try again later.''),
        state0\<lparr>trace := [FindUser ''clerk_alice'', FindDefaultAccount ''u1''],
               console := [RATE_LIMIT_EXCEEDED 0 60]\<rparr>)"
  by code_simp

section \<open>Accounts of other users\<close>

lemma find_not_owned:
  assumes "\<forall>a \<in> set xs. account_id a = aid \<longrightarrow> account_userId a \<noteq> uid"
  shows "find (\<lambda>a. account_id a = aid \<and> account_userId a = uid) xs = None"
  using assms by (auto simp: find_None_iff)

lemma lookup_not_owned:
  assumes "find (\<lambda>u. clerkUserId u = uid) (users (db s)) = None
           \<or> (\<exists>u. find (\<lambda>u. clerkUserId u = uid) (users (db s)) = Some u
                  \<and> (\<forall>a \<in> set (accounts (db s)).
                        account_id a = accountId data \<longrightarrow> account_userId a \<noteq> user_id u))"
  shows "\<exists>x. fst (lookup e data uid s) = Inl x"
    and "db_fault e (FindUser uid) = None \<Longrightarrow>
         (\<forall>u. db_fault e (FindAccount (accountId data) u) = None) \<Longrightarrow>
           fst (lookup e data uid s) = Inl (Error ''User not found'')
           \<or> fst (lookup e data uid s) = Inl (Error ''Account not found'')"
  using assms find_not_owned [of "accounts (db s)" "accountId data"]
  by (auto simp: lookup_def andThen_def user_findUnique_def account_findUnique_def
      split: option.splits)

lemma body_not_owned:
  assumes "auth e = Inr (Some uid)"
    and "find (\<lambda>u. clerkUserId u = uid) (users (db s)) = None
           \<or> (\<exists>u. find (\<lambda>u. clerkUserId u = uid) (users (db s)) = Some u
                  \<and> (\<forall>a \<in> set (accounts (db s)).
                        account_id a = accountId data \<longrightarrow> account_userId a \<noteq> user_id u))"
  shows "\<exists>x s'. createTransaction_body e data s = (Inl x, s') \<and> db s' = db s
                \<and> revalidated s' = revalidated s"
proof (cases "admission e s")
  case (Pair r s1)
  have d1: "db s1 = db s" "revalidated s1 = revalidated s" using admission_db [of e s] Pair by simp_all
  show ?thesis
  proof (cases r)
    case (Inl x)
    with Pair d1 show ?thesis by (simp add: createTransaction_body_def andThen_def)
  next
    case (Inr uid')
    with Pair admission_Inr [of e s uid' s1] assms(1) have u: "uid' = uid" and s1: "s1 = s" by simp_all
    from lookup_not_owned(1) [OF assms(2), of e] obtain x where x: "fst (lookup e data uid s) = Inl x" ..
    obtain s2 where l: "lookup e data uid s = (Inl x, s2)" using x by (cases "lookup e data uid s") simp
    have "db s2 = db s" "revalidated s2 = revalidated s" using lookup_db [of e data uid s] l by simp_all
    with Pair Inr u s1 l show ?thesis by (simp add: createTransaction_body_def andThen_def)
  qed
qed

text \<open>
  C4. When the caller's user row does not exist, or no account with the given id belongs
  to the caller (it does not exist, or it belongs to another user), createTransaction
  fails and has no side effect on the store: no row is inserted, no balance is changed
  and no path is revalidated. For a caller who is identified and admitted, and a store
  that answers the two lookups, the failure is the user-not-found or the
  account-not-found error.
\<close>

theorem foreign_account_no_effect:
  assumes "auth e = Inr (Some uid)"
    and "find (\<lambda>u. clerkUserId u = uid) (users (db s)) = None
           \<or> (\<exists>u. find (\<lambda>u. clerkUserId u = uid) (users (db s)) = Some u
                  \<and> (\<forall>a \<in> set (accounts (db s)).
                        account_id a = accountId data \<longrightarrow> account_userId a \<noteq> user_id u))"
  shows "(\<exists>m. fst (createTransaction e data s) = Inr (Failure m))
         \<and> db (snd (createTransaction e data s)) = db s
         \<and> revalidated (snd (createTransaction e data s)) = revalidated s
         \<and> (uid \<noteq> [] \<and> request e = None \<and> protect e uid = Inr Allow
              \<and> db_fault e (FindUser uid) = None
              \<and> (\<forall>u. db_fault e (FindAccount (accountId data) u) = None)
            \<longrightarrow> fst (createTransaction e data s) = Inr (Failure ''User not found'')
                \<or> fst (createTransaction e data s) = Inr (Failure ''Account not found''))"
proof -
  from body_not_owned [OF assms] obtain x s' where
    b: "createTransaction_body e data s = (Inl x, s')" "db s' = db s" "revalidated s' = revalidated s"
    by blast
  then have c: "createTransaction e data s = (Inr (Failure (message x)), s')"
    by (simp add: createTransaction_def)
  have "fst (createTransaction e data s) = Inr (Failure ''User not found'')
        \<or> fst (createTransaction e data s) = Inr (Failure ''Account not found'')"
    if h: "uid \<noteq> [] \<and> request e = None \<and> protect e uid = Inr Allow
              \<and> db_fault e (FindUser uid) = None
              \<and> (\<forall>u. db_fault e (FindAccount (accountId data) u) = None)"
  proof -
    from h assms(1) have adm: "admission e s = (Inr uid, s)" by (simp add: admission_def)
    from h have h1: "db_fault e (FindUser uid) = None"
      and h2: "\<forall>u. db_fault e (FindAccount (accountId data) u) = None" by simp_all
    have "fst (lookup e data uid s) = Inl (Error ''User not found'')
          \<or> fst (lookup e data uid s) = Inl (Error ''Account not found'')"
      by (rule lookup_not_owned(2) [OF assms(2) h1 h2])
    then show ?thesis
      using adm
      by (cases "lookup e data uid s")
         (auto simp: createTransaction_def createTransaction_body_def andThen_def)
  qed
  with b c show ?thesis by simp
qed

theorem foreign_account_no_effect_witness:
  "createTransaction env0 into_bobs_account state0
     = (Inr (Failure ''Account not found''),
        state0\<lparr>trace := [FindUser ''clerk_alice'', FindAccount ''a2'' ''u1'']\<rparr>)
   \<and> db (snd (createTransaction env0 into_bobs_account state0)) = store0
   \<and> revalidated (snd (createTransaction env0 into_bobs_account state0)) = []"
proof -
  have a: "auth env0 = Inr (Some ''clerk_alice'')" by (simp add: env0_def)
  have f: "find (\<lambda>u. clerkUserId u = ''clerk_alice'') (users (db state0)) = Some alice"
    by (simp add: state0_def store0_def alice_def)
  have n: "\<forall>a \<in> set (accounts (db state0)).
             account_id a = accountId into_bobs_account \<longrightarrow> account_userId a \<noteq> user_id alice"
    by (simp add: state0_def store0_def alice_def alice_account_def bob_account_def
          into_bobs_account_def income10_def)
  have v: "createTransaction env0 into_bobs_account state0
     = (Inr (Failure ''Account not found''),
        state0\<lparr>trace := [FindUser ''clerk_alice'', FindAccount ''a2'' ''u1'']\<rparr>)"
    by code_simp
  have s: "db state0 = store0" "revalidated state0 = []" by (simp_all add: state0_def)
  have "find (\<lambda>u. clerkUserId u = ''clerk_alice'') (users (db state0)) = None
           \<or> (\<exists>u. find (\<lambda>u. clerkUserId u = ''clerk_alice'') (users (db state0)) = Some u
                  \<and> (\<forall>a \<in> set (accounts (db state0)).
                        account_id a = accountId into_bobs_account \<longrightarrow> account_userId a \<noteq> user_id u))"
    using f n by simp
  from foreign_account_no_effect [OF a this]
  have "db (snd (createTransaction env0 into_bobs_account state0)) = db state0
        \<and> revalidated (snd (createTransaction env0 into_bobs_account state0)) = revalidated state0"
    by simp
  with v s show ?thesis by simp
qed

section \<open>Overlapping calls on one account\<close>

lemma run_alone:
  "map outcome (fst (run [0, 0] ([Pending e data], s))) = [Some r]
     \<and> snd (run [0, 0] ([Pending e data], s)) = s'
   \<longleftrightarrow> createTransaction e data s = (Inr r, s')"
  by (auto simp: createTransaction_def createTransaction_body_def andThen_def
      split: prod.splits sum.splits)

text \<open>
  C5. Two calls by the same admitted, authorised caller, each an income of 10 on the
  account with balance 100, overlap: both read the balance before either runs its unit
  of work. Both return success and both rows are recorded, and the final balance is 110;
  run one after the other, the same two calls leave 120.
\<close>

theorem overlapping_calls_lose_an_update:
  "map outcome (fst (run [0, 1, 0, 1] ([Pending env0 income10, Pending env0 income10], state0)))
     = [Some (Success (new_row income10 alice)), Some (Success (new_row income10 alice))]
   \<and> db (snd (run [0, 1, 0, 1] ([Pending env0 income10, Pending env0 income10], state0)))
     = store0\<lparr>accounts := [alice_account\<lparr>balance := Finite 110\<rparr>, bob_account],
              transactions := [new_row income10 alice, new_row income10 alice]\<rparr>
   \<and> map balance (accounts (db (snd
         (run [0, 0, 1, 1] ([Pending env0 income10, Pending env0 income10], state0)))))
     = [Finite 120, Finite 50]"
proof (intro conjI)
  show "map outcome (fst (run [0, 1, 0, 1] ([Pending env0 income10, Pending env0 income10], state0)))
     = [Some (Success (new_row income10 alice)), Some (Success (new_row income10 alice))]"
    by code_simp
  show "db (snd (run [0, 1, 0, 1] ([Pending env0 income10, Pending env0 income10], state0)))
     = store0\<lparr>accounts := [alice_account\<lparr>balance := Finite 110\<rparr>, bob_account],
              transactions := [new_row income10 alice, new_row income10 alice]\<rparr>"
    by code_simp
  show "map balance (accounts (db (snd
         (run [0, 0, 1, 1] ([Pending env0 income10, Pending env0 income10], state0)))))
     = [Finite 120, Finite 50]"
    by code_simp
qed

section \<open>The calendar of the date helper\<close>

text \<open>The day count against two known distances: 1 January 1970 to 1 January 2000 is
  10957 days, and February 2024 has 29 days.\<close>

lemma day_number_checks:
  "day_number 2000 0 1 - day_number 1970 0 1 = 10957"
  "day_number 2024 2 1 - day_number 2024 1 1 = 29"
  by code_simp+


























section \<open>Validation of the extracted fields\<close>




section \<open>The transaction built from a prompt\<close>






section \<open>Failures at the service boundary\<close>

lemma createTransactionFromPrompt_returns:
  "\<exists>r. fst (createTransactionFromPrompt e prompt s) = Inr r"
  by (simp add: createTransactionFromPrompt_def split: prod.splits sum.splits)

text \<open>
  C9. createTransaction and createTransactionFromPrompt never throw: each returns a
  result, and an exception thrown anywhere in the body is returned as the failure
  result carrying the exception's message. scanReceipt throws: when its body throws, it
  throws the scan-failed error to its caller, and otherwise it returns the body's value.
\<close>

theorem failures_at_the_boundary:
  "(\<exists>r. fst (createTransaction e data s) = Inr r)
   \<and> (\<forall>x s'. createTransaction_body e data s = (Inl x, s')
        \<longrightarrow> createTransaction e data s = (Inr (Failure (message x)), s'))
   \<and> (\<exists>r. fst (createTransactionFromPrompt e prompt s) = Inr r)
   \<and> (\<forall>x s'. createTransactionFromPrompt_body e prompt s = (Inl x, s')
        \<longrightarrow> createTransactionFromPrompt e prompt s = (Inr (Failure (message x)), s'))
   \<and> (\<forall>x. scan_body e file = Inl x
        \<longrightarrow> fst (scanReceipt e file s) = Inl (Error ''Failed to scan receipt''))
   \<and> (\<forall>r. scan_body e file = Inr r \<longrightarrow> scanReceipt e file s = (Inr r, s))"
proof (intro conjI allI impI)
  show "\<exists>r. fst (createTransaction e data s) = Inr r"
    by (rule createTransaction_returns)
  show "createTransaction e data s = (Inr (Failure (message x)), s')"
    if "createTransaction_body e data s = (Inl x, s')" for x s'
    using that by (simp add: createTransaction_def)
  show "\<exists>r. fst (createTransactionFromPrompt e prompt s) = Inr r"
    by (rule createTransactionFromPrompt_returns)
  show "createTransactionFromPrompt e prompt s = (Inr (Failure (message x)), s')"
    if "createTransactionFromPrompt_body e prompt s = (Inl x, s')" for x s'
    using that by (simp add: createTransactionFromPrompt_def)
  show "fst (scanReceipt e file s) = Inl (Error ''Failed to scan receipt'')"
    if "scan_body e file = Inl x" for x
    using that by (simp add: scanReceipt_def)
  show "scanReceipt e file s = (Inr r, s)" if "scan_body e file = Inr r" for r
    using that by (simp add: scanReceipt_def)
qed

theorem failures_at_the_boundary_witness:
  "createTransaction_body env_anonymous income10 state0 = (Inl (Error ''Unauthorized''), state0)
   \<and> createTransaction env_anonymous income10 state0 = (Inr (Failure ''Unauthorized''), state0)
   \<and> createTransactionFromPrompt_body env_anonymous ''Spent 500 on lunch'' state0
       = (Inl (Error ''Unauthorized''), state0)
   \<and> createTransactionFromPrompt env_anonymous ''Spent 500 on lunch'' state0
       = (Inr (Failure ''Unauthorized''), state0)
   \<and> scan_body env_oracle_down photo = Inl (External ''fetch failed'')
   \<and> fst (scanReceipt env_oracle_down photo state0) = Inl (Error ''Failed to scan receipt'')"
proof -
  have a: "createTransaction_body env_anonymous income10 state0
             = (Inl (Error ''Unauthorized''), state0)"
    by code_simp
  have b: "createTransactionFromPrompt_body env_anonymous ''Spent 500 on lunch'' state0
             = (Inl (Error ''Unauthorized''), state0)"
    by code_simp
  have c: "scan_body env_oracle_down photo = Inl (External ''fetch failed'')"
    by code_simp
  note t = failures_at_the_boundary
             [of env_anonymous income10 state0 "''Spent 500 on lunch''" photo]
  note u = failures_at_the_boundary
             [of env_oracle_down income10 state0 "''Spent 500 on lunch''" photo]
  from t a have a': "createTransaction env_anonymous income10 state0
                       = (Inr (Failure (message (Error ''Unauthorized''))), state0)"
    by blast
  from t b have b': "createTransactionFromPrompt env_anonymous ''Spent 500 on lunch'' state0
                       = (Inr (Failure (message (Error ''Unauthorized''))), state0)"
    by blast
  from u c have c': "fst (scanReceipt env_oracle_down photo state0)
                       = Inl (Error ''Failed to scan receipt'')"
    by blast
  from a a' b b' c c' show ?thesis by simp
qed

section \<open>The result of a receipt scan\<close>







end
